theory Spec2Isabelle
  imports Main
begin

section \<open>JavaScript values\<close>

text \<open>
  The values that reach the code: what \<open>express.json()\<close> parses into \<open>req.body\<close>, and
  the argument handed to \<open>hasAnyPermission\<close>. An object is the list of its own
  properties, looked up with \<open>map_of\<close>. JSON numbers are represented by integers: the
  code only ever tests a number for being zero.
\<close>

datatype jsval =
    JUndefined
  | JNull
  | JBool bool
  | JNum int
  | JStr string
  | JArr "jsval list"
  | JObj "(string \<times> jsval) list"

datatype js_error = TypeError

text \<open>The condition of an \<open>if (v)\<close>: JavaScript's ToBoolean.\<close>

fun truthy :: "jsval \<Rightarrow> bool" where
  "truthy JUndefined = False"
| "truthy JNull = False"
| "truthy (JBool b) = b"
| "truthy (JNum n) = (n \<noteq> 0)"
| "truthy (JStr s) = (s \<noteq> [])"
| "truthy (JArr xs) = True"
| "truthy (JObj fs) = True"

text \<open>
  Member access \<open>v.k\<close> for a named data property \<open>k\<close>: a TypeError on \<open>undefined\<close> and
  \<open>null\<close>, the property's value on an object that has it, \<open>undefined\<close> everywhere else.
\<close>

fun getProp :: "jsval \<Rightarrow> string \<Rightarrow> js_error + jsval" where
  "getProp JUndefined k = Inl TypeError"
| "getProp JNull k = Inl TypeError"
| "getProp (JObj fs) k = Inr (case map_of fs k of None \<Rightarrow> JUndefined | Some v \<Rightarrow> v)"
| "getProp v k = Inr JUndefined"

text \<open>\<open>Array.isArray\<close>.\<close>

fun isArray :: "jsval \<Rightarrow> bool" where
  "isArray (JArr xs) = True"
| "isArray v = False"

text \<open>The field names a payload carries (none unless it is an object).\<close>

fun fieldNames :: "jsval \<Rightarrow> string set" where
  "fieldNames (JObj fs) = fst ` set fs"
| "fieldNames v = {}"

section \<open>Requests, principals and roles\<close>

text \<open>\<open>req.user\<close> as \<open>app.js\<close> builds it: \<open>{ _id: ..., role: ... }\<close>.\<close>

record principal =
  uid :: string
  role :: string

text \<open>The part of an Express request the code reads or writes.\<close>

record request =
  body :: jsval
  user :: "principal option"

text \<open>An entry of the \<open>ROLES\<close> table: \<open>{ name: ..., permissions: [...] }\<close>.\<close>

record role_entry =
  name :: string
  permissions :: "string list"

text \<open>
  What a middleware does with a request: it calls \<open>next()\<close> (the request goes on, as the
  middleware left it), it answers with \<open>res.status(n).json(v)\<close>, or it throws.
\<close>

datatype outcome =
    Next request
  | Respond nat jsval
  | Throw js_error

type_synonym middleware = "request \<Rightarrow> outcome"

section \<open>app.js\<close>

text \<open>
  The mock authentication middleware:
  \<^verbatim>\<open>req.user = { _id: 'mockUserId', role: 'DEVELOPER' }; next();\<close>
\<close>

definition mockUser :: principal where
  "mockUser = \<lparr>uid = ''mockUserId'', role = ''DEVELOPER''\<rparr>"

definition mockAuth :: middleware where
  "mockAuth req = Next (req\<lparr>user := Some mockUser\<rparr>)"

text \<open>
  \<open>app.use\<close> registers middlewares in order; each one runs only if its predecessors
  called \<open>next()\<close>, on the request as they left it.
\<close>

fun runMiddlewares :: "middleware list \<Rightarrow> middleware" where
  "runMiddlewares [] req = Next req"
| "runMiddlewares (m # ms) req =
     (case m req of
        Next req' \<Rightarrow> runMiddlewares ms req'
      | Respond st v \<Rightarrow> Respond st v
      | Throw e \<Rightarrow> Throw e)"

text \<open>
  The stack of \<open>app.js\<close> ahead of the routes: \<open>express.json()\<close>, a library middleware
  taken as a parameter, then the mock authentication.
\<close>

definition appStack :: "middleware \<Rightarrow> middleware list" where
  "appStack expressJson = [expressJson, mockAuth]"

text \<open>The request as a route mounted after the stack receives it, if any reaches it.\<close>

definition routeInput :: "middleware \<Rightarrow> request \<Rightarrow> request option" where
  "routeInput expressJson req =
     (case runMiddlewares (appStack expressJson) req of
        Next req' \<Rightarrow> Some req'
      | Respond st v \<Rightarrow> None
      | Throw e \<Rightarrow> None)"

definition app :: "middleware \<Rightarrow> middleware \<Rightarrow> middleware" where
  "app expressJson routes = runMiddlewares (appStack expressJson @ [routes])"

section \<open>hasAnyPermission (README, FAQ)\<close>

text \<open>
  \<open>userRole.permissions.includes(permission)\<close>: the role's permissions are strings, and
  \<open>includes\<close> compares with SameValueZero, so only an equal string is found.
\<close>

fun arrayIncludes :: "string list \<Rightarrow> jsval \<Rightarrow> bool" where
  "arrayIncludes ps (JStr s) = (s \<in> set ps)"
| "arrayIncludes ps v = False"

definition insufficient :: outcome where
  "insufficient = Respond 403 (JObj [(''message'', JStr ''Insufficient permissions'')])"

text \<open>
  The \<open>for ... of\<close> loop and the statement after it. \<open>userRole\<close> is free in the snippet and
  is a parameter here; \<open>None\<close> is \<open>undefined\<close>, on which \<open>userRole.permissions\<close> throws.
\<close>

fun anyLoop :: "role_entry option \<Rightarrow> jsval list \<Rightarrow> middleware" where
  "anyLoop userRole [] req = insufficient"
| "anyLoop userRole (permission # rest) req =
     (case userRole of
        None \<Rightarrow> Throw TypeError
      | Some r \<Rightarrow>
          if arrayIncludes (permissions r) permission then Next req
          else anyLoop userRole rest req)"

fun toArray :: "jsval \<Rightarrow> jsval list" where
  "toArray (JArr xs) = xs"
| "toArray v = [v]"

definition hasAnyPermission :: "jsval \<Rightarrow> role_entry option \<Rightarrow> middleware" where
  "hasAnyPermission requiredPermissions =
     (let perms = (if isArray requiredPermissions then toArray requiredPermissions
                   else [requiredPermissions])
      in (\<lambda>userRole req. anyLoop userRole perms req))"



section \<open>The update guard (README, FAQ)\<close>

text \<open>
  \<^verbatim>\<open>if (req.body.teamMembers) { hasAllPermissions(['UPDATE_PROJECT', 'MANAGE_TEAM'])(req, res, next); }
  else { hasPermission('UPDATE_PROJECT')(req, res, next); }\<close>
  \<open>hasAllPermissions\<close> and \<open>hasPermission\<close> are not in the sources: they are parameters,
  and the result is the guard the snippet picks.
\<close>

definition updateGuard :: "(jsval \<Rightarrow> 'g) \<Rightarrow> (jsval \<Rightarrow> 'g) \<Rightarrow> request \<Rightarrow> js_error + 'g" where
  "updateGuard hasAllPermissions hasPermission req =
     (case getProp (body req) ''teamMembers'' of
        Inl e \<Rightarrow> Inl e
      | Inr teamMembers \<Rightarrow>
          if truthy teamMembers
          then Inr (hasAllPermissions (JArr [JStr ''UPDATE_PROJECT'', JStr ''MANAGE_TEAM'']))
          else Inr (hasPermission (JStr ''UPDATE_PROJECT'')))"

text \<open>The guard picked, as data: which factory was called, with which argument.\<close>

datatype guard_call = HasAllPermissions jsval | HasPermission jsval

definition selectedGuard :: "request \<Rightarrow> js_error + guard_call" where
  "selectedGuard = updateGuard HasAllPermissions HasPermission"

section \<open>The policy evaluator of the specification\<close>

text \<open>
  \<open>middleware/rbac.js\<close> and \<open>config/roles.js\<close> are not in the sources (the README asks
  the reader to write them), so \<open>hasPermission\<close>, \<open>hasAllPermissions\<close>, \<open>hasRole\<close>
  and the role table have no code to translate. The definitions of this section follow
  sections 3, 4.2 and 4.3 of the specification instead.
\<close>

text \<open>Modelled from the spec: the Role Registry (the \<open>ROLES\<close> table of \<open>config/roles.js\<close>),
  a map from each role identifier to the set of permissions it grants.\<close>

type_synonym registry = "string \<rightharpoonup> string set"

text \<open>Modelled from the spec: \<open>PolicyRequirement\<close>, what the guards of
  \<open>middleware/rbac.js\<close> are built from, recursive as section 4.4 has it;
  the flat \<open>AnyOf(P)\<close> and \<open>AllOf(P)\<close> over a permission set are the clauses
  \<open>Single p\<close> for the \<open>p\<close> of \<open>P\<close>. The specification has the empty set refused when
  a requirement is built, so the theorems below take \<open>P\<close> non-empty.\<close>

datatype requirement =
    Single string
  | RoleExact string
  | AnyOf "requirement list"
  | AllOf "requirement list"

text \<open>Modelled from the spec: the reasons of a \<open>Deny\<close> of the evaluator of
  \<open>middleware/rbac.js\<close>: "unknown role",
  "missing permission p", the two list-carrying reasons of ANY and ALL, and
  "requires role r, has role x".\<close>

datatype deny_reason =
    UnknownRole
  | MissingPermission string
  | NoneOfRequired
  | NotAllRequired
  | RequiresRole string string

text \<open>Modelled from the spec: \<open>Verdict\<close> (section 3), what the evaluator of
  \<open>middleware/rbac.js\<close> returns: \<open>Allow\<close>, or \<open>Deny\<close> with a reason and the set of missing
  permissions.\<close>

datatype verdict =
    Allow
  | Deny deny_reason "string set"

text \<open>Modelled from the spec: a requirement's full permission set, which the evaluator
  of \<open>middleware/rbac.js\<close> reports for an unknown role and for a denied \<open>AnyOf\<close>.\<close>

fun permsOf :: "requirement \<Rightarrow> string set" where
  "permsOf (Single p) = {p}"
| "permsOf (RoleExact r) = {}"
| "permsOf (AnyOf cs) = \<Union> (set (map permsOf cs))"
| "permsOf (AllOf cs) = \<Union> (set (map permsOf cs))"

text \<open>Modelled from the spec: the missing permissions a verdict carries; a denied
  \<open>AllOf\<close> of the evaluator of \<open>middleware/rbac.js\<close> collects those of its denied clauses.\<close>

fun missing :: "verdict \<Rightarrow> string set" where
  "missing (Deny why m) = m"
| "missing Allow = {}"

text \<open>Modelled from the spec: step 2 of the algorithm of section 4.3 (the evaluator of
  \<open>middleware/rbac.js\<close>), for a principal whose role identifier is \<open>rid\<close> and whose role
  grants \<open>granted\<close>.\<close>

fun check :: "string \<Rightarrow> string set \<Rightarrow> requirement \<Rightarrow> verdict" where
  "check rid granted (Single p) =
     (if p \<in> granted then Allow else Deny (MissingPermission p) {p})"
| "check rid granted (RoleExact r) =
     (if rid = r then Allow else Deny (RequiresRole r rid) {})"
| "check rid granted (AnyOf cs) =
     (let vs = map (check rid granted) cs
      in if list_ex (\<lambda>v. v = Allow) vs then Allow
         else Deny NoneOfRequired (permsOf (AnyOf cs)))"
| "check rid granted (AllOf cs) =
     (let vs = map (check rid granted) cs
      in if list_all (\<lambda>v. v = Allow) vs then Allow
         else Deny NotAllRequired (\<Union> (set (map missing vs))))"

text \<open>Modelled from the spec: \<open>evaluate(principal, requirement)\<close> of section 4.3 (the
  evaluator of \<open>middleware/rbac.js\<close>): step 1 resolves the role in the registry, ahead of
  the branch on the requirement.\<close>

definition evaluate :: "registry \<Rightarrow> principal \<Rightarrow> requirement \<Rightarrow> verdict" where
  "evaluate reg p req =
     (case reg (role p) of
        None \<Rightarrow> Deny UnknownRole (permsOf req)
      | Some granted \<Rightarrow> check (role p) granted req)"

text \<open>Modelled from the spec: the construction of an \<open>AllOf\<close> requirement (what
  \<open>hasAllPermissions\<close> of \<open>middleware/rbac.js\<close> does when it is called): an empty set is a
  \<open>ConfigError\<close>. The ANY requirement is built by \<open>hasAnyPermission\<close>, which is in the
  sources.\<close>

datatype config_error = ConfigError

definition mkAllOf :: "requirement list \<Rightarrow> config_error + requirement" where
  "mkAllOf cs = (if cs = [] then Inl ConfigError else Inr (AllOf cs))"

text \<open>Modelled from the spec: the guard \<open>hasAllPermissions(P)\<close> of \<open>middleware/rbac.js\<close>: the
  requirement is built once, when the guard is, and only a requirement that was built is
  evaluated for a principal.\<close>

definition allOfGuard :: "registry \<Rightarrow> string list \<Rightarrow> config_error + (principal \<Rightarrow> verdict)" where
  "allOfGuard reg P =
     (case mkAllOf (map Single P) of
        Inl e \<Rightarrow> Inl e
      | Inr r \<Rightarrow> Inr (\<lambda>p. evaluate reg p r))"

section \<open>Facts about the code\<close>

lemma hasAnyPermission_unfold:
  "hasAnyPermission rp ur req = anyLoop ur (toArray rp) req"
  by (cases rp) (simp_all add: hasAnyPermission_def)

lemma anyLoop_strings:
  "anyLoop (Some R) (map JStr P) req =
     (if set P \<inter> set (permissions R) \<noteq> {} then Next req else insufficient)"
  by (induction P) auto

lemma anyLoop_range:
  "anyLoop ur ps req = Next req \<or> anyLoop ur ps req = insufficient \<or> anyLoop ur ps req = Throw TypeError"
  by (induction ps) (auto split: option.splits)

lemma hasAnyPermission_outcomes:
  "hasAnyPermission rp ur req = Next req \<or>
   hasAnyPermission rp ur req = Respond 403 (JObj [(''message'', JStr ''Insufficient permissions'')]) \<or>
   hasAnyPermission rp ur req = Throw TypeError"
  using anyLoop_range [of ur "toArray rp" req]
  by (simp add: hasAnyPermission_unfold insufficient_def)

lemma runMiddlewares_append:
  "runMiddlewares (ms @ [m]) req =
     (case runMiddlewares ms req of
        Next q \<Rightarrow> m q
      | Respond st v \<Rightarrow> Respond st v
      | Throw e \<Rightarrow> Throw e)"
  by (induction ms arbitrary: req) (auto split: outcome.splits)

lemma appStack_run:
  "runMiddlewares (appStack expressJson) req =
     (case expressJson req of
        Next q \<Rightarrow> Next (q\<lparr>user := Some mockUser\<rparr>)
      | Respond st v \<Rightarrow> Respond st v
      | Throw e \<Rightarrow> Throw e)"
  by (simp add: appStack_def mockAuth_def split: outcome.splits)

lemma selectedGuard_object:
  "body req = JObj fs \<Longrightarrow>
   selectedGuard req =
     Inr (if truthy (case map_of fs ''teamMembers'' of None \<Rightarrow> JUndefined | Some v \<Rightarrow> v)
          then HasAllPermissions (JArr [JStr ''UPDATE_PROJECT'', JStr ''MANAGE_TEAM''])
          else HasPermission (JStr ''UPDATE_PROJECT''))"
  by (simp add: selectedGuard_def updateGuard_def)

section \<open>What the update guard picks\<close>

text \<open>
  C1 asks that the guard picked for an update depend only on which field names the
  payload has: \<open>AllOf({UPDATE_PROJECT, MANAGE_TEAM})\<close> whenever \<open>teamMembers\<close> is among them.
  The snippet tests the field's value, \<open>if (req.body.teamMembers)\<close>: the payload
  \<open>{"teamMembers": null}\<close> has the field and gets the single-permission guard, while
  \<open>{"teamMembers": []}\<close>, with the same field names, gets the two-permission guard.
\<close>

theorem null_teamMembers_selects_single:
  "selectedGuard \<lparr>body = JObj [(''teamMembers'', JNull)], user = Some mockUser\<rparr>
     = Inr (HasPermission (JStr ''UPDATE_PROJECT'')) \<and>
   selectedGuard \<lparr>body = JObj [(''teamMembers'', JArr [])], user = Some mockUser\<rparr>
     = Inr (HasAllPermissions (JArr [JStr ''UPDATE_PROJECT'', JStr ''MANAGE_TEAM''])) \<and>
   fieldNames (JObj [(''teamMembers'', JNull)]) = fieldNames (JObj [(''teamMembers'', JArr [])]) \<and>
   ''teamMembers'' \<in> fieldNames (JObj [(''teamMembers'', JNull)])"
  by (simp add: selectedGuard_def updateGuard_def)

section \<open>What hasAnyPermission decides\<close>

text \<open>
  C10: for every argument \<open>p\<close> that is not an array, \<open>hasAnyPermission(p)\<close> and
  \<open>hasAnyPermission([p])\<close> are the same middleware: the same outcome for every
  \<open>userRole\<close> and every request.
\<close>

theorem hasAnyPermission_normalizes:
  "\<not> isArray p \<Longrightarrow> hasAnyPermission p = hasAnyPermission (JArr [p])"
  by (simp add: hasAnyPermission_def)

theorem hasAnyPermission_normalizes_witness:
  "\<not> isArray (JStr ''create:project'') \<and>
   hasAnyPermission (JStr ''create:project'') = hasAnyPermission (JArr [JStr ''create:project'']) \<and>
   hasAnyPermission (JArr [JStr ''create:project''])
     (Some \<lparr>name = ''ADMIN'', permissions = [''create:project'']\<rparr>) \<lparr>body = JObj [], user = None\<rparr>
     = Next \<lparr>body = JObj [], user = None\<rparr>"
  using hasAnyPermission_normalizes [of "JStr ''create:project''"]
  by (simp add: hasAnyPermission_def)

text \<open>
  C3, as the code has it: for every role \<open>R\<close> and every list \<open>P\<close> of permission names,
  the middleware of \<open>hasAnyPermission(P)\<close> calls \<open>next()\<close> if and only if \<open>R\<close> grants at
  least one permission of \<open>P\<close>; otherwise it answers 403 with the fixed body
  \<open>{ message: 'Insufficient permissions' }\<close>, which lists no permission.
\<close>

theorem hasAnyPermission_any_of:
  "hasAnyPermission (JArr (map JStr P)) (Some R) req =
     (if set P \<inter> set (permissions R) \<noteq> {} then Next req
      else Respond 403 (JObj [(''message'', JStr ''Insufficient permissions'')]))"
  by (simp add: hasAnyPermission_unfold anyLoop_strings insufficient_def)

theorem hasAnyPermission_any_of_witness:
  "hasAnyPermission (JArr (map JStr [''create:project'', ''manage:team'']))
     (Some \<lparr>name = ''TEAM_LEAD'', permissions = [''view:project'', ''manage:team'']\<rparr>)
     \<lparr>body = JObj [], user = Some mockUser\<rparr> = Next \<lparr>body = JObj [], user = Some mockUser\<rparr> \<and>
   hasAnyPermission (JArr (map JStr [''create:project'', ''manage:team'']))
     (Some \<lparr>name = ''DEVELOPER'', permissions = [''view:project'']\<rparr>)
     \<lparr>body = JObj [], user = Some mockUser\<rparr>
     = Respond 403 (JObj [(''message'', JStr ''Insufficient permissions'')])"
  using hasAnyPermission_any_of
    [of "[''create:project'', ''manage:team'']"
        "\<lparr>name = ''TEAM_LEAD'', permissions = [''view:project'', ''manage:team'']\<rparr>"
        "\<lparr>body = JObj [], user = Some mockUser\<rparr>"]
    hasAnyPermission_any_of
    [of "[''create:project'', ''manage:team'']"
        "\<lparr>name = ''DEVELOPER'', permissions = [''view:project'']\<rparr>"
        "\<lparr>body = JObj [], user = Some mockUser\<rparr>"]
  by simp

text \<open>
  C3 as stated has the denial report the candidate set \<open>P\<close>. The denials of two
  different candidate sets are the same response, so the response reports neither.
\<close>

theorem hasAnyPermission_deny_names_nothing:
  "hasAnyPermission (JArr [JStr ''create:project''])
     (Some \<lparr>name = ''DEVELOPER'', permissions = [''view:project'']\<rparr>)
     \<lparr>body = JObj [], user = Some mockUser\<rparr>
     = Respond 403 (JObj [(''message'', JStr ''Insufficient permissions'')]) \<and>
   hasAnyPermission (JArr [JStr ''manage:team''])
     (Some \<lparr>name = ''DEVELOPER'', permissions = [''view:project'']\<rparr>)
     \<lparr>body = JObj [], user = Some mockUser\<rparr>
     = Respond 403 (JObj [(''message'', JStr ''Insufficient permissions'')]) \<and>
   {''create:project''} \<noteq> {''manage:team''}"
  by (simp add: hasAnyPermission_def insufficient_def)



section \<open>What reaches the routes\<close>

text \<open>
  C9: a request reaches the routes only through the mock authentication, which sets
  \<open>req.user\<close> to \<open>{ _id: 'mockUserId', role: 'DEVELOPER' }\<close>: whatever
  \<open>express.json()\<close> did and whatever the request carried, the routes see that
  principal, so none is unauthenticated and none has another role.
\<close>

theorem mock_principal_reaches_routes:
  "(routeInput expressJson req = Some q \<longrightarrow>
      user q = Some \<lparr>uid = ''mockUserId'', role = ''DEVELOPER''\<rparr>) \<and>
   app expressJson routes req =
     (case routeInput expressJson req of
        Some q \<Rightarrow> routes q
      | None \<Rightarrow> runMiddlewares (appStack expressJson) req)"
proof (cases "expressJson req")
  case (Next q')
  then show ?thesis
    by (auto simp: routeInput_def app_def appStack_run runMiddlewares_append mockUser_def)
next
  case (Respond st v)
  then show ?thesis
    by (simp add: routeInput_def app_def appStack_run runMiddlewares_append)
next
  case (Throw e)
  then show ?thesis
    by (simp add: routeInput_def app_def appStack_run runMiddlewares_append)
qed

theorem mock_principal_reaches_routes_witness:
  "routeInput Next \<lparr>body = JObj [(''title'', JStr ''t'')], user = None\<rparr>
     = Some \<lparr>body = JObj [(''title'', JStr ''t'')],
             user = Some \<lparr>uid = ''mockUserId'', role = ''DEVELOPER''\<rparr>\<rparr> \<and>
   user \<lparr>body = JObj [(''title'', JStr ''t'')],
         user = Some \<lparr>uid = ''mockUserId'', role = ''DEVELOPER''\<rparr>\<rparr>
     = Some \<lparr>uid = ''mockUserId'', role = ''DEVELOPER''\<rparr> \<and>
   app Next Next \<lparr>body = JObj [(''title'', JStr ''t'')], user = None\<rparr>
     = Next \<lparr>body = JObj [(''title'', JStr ''t'')],
             user = Some \<lparr>uid = ''mockUserId'', role = ''DEVELOPER''\<rparr>\<rparr>"
  using mock_principal_reaches_routes
    [of Next "\<lparr>body = JObj [(''title'', JStr ''t'')], user = None\<rparr>"
        "\<lparr>body = JObj [(''title'', JStr ''t'')],
          user = Some \<lparr>uid = ''mockUserId'', role = ''DEVELOPER''\<rparr>\<rparr>" Next]
  by (simp add: routeInput_def appStack_def mockAuth_def mockUser_def)

section \<open>What the evaluator of the specification decides\<close>

lemma check_all_singles:
  "list_all (\<lambda>v. v = Allow) (map (check rid granted) (map Single P)) = (set P \<subseteq> granted)"
  by (induction P) auto

lemma missing_singles:
  "\<Union> (set (map missing (map (check rid granted) (map Single P)))) = set P - granted"
  by (induction P) auto

text \<open>
  C2: for a principal whose role resolves to the permissions \<open>granted\<close> and a non-empty
  \<open>P\<close>, \<open>AllOf(P)\<close> is allowed if and only if \<open>P \<subseteq> granted\<close>, and a denial reports
  exactly \<open>P - granted\<close>, the missing permissions only, not the requirement \<open>P\<close> as such.
\<close>

theorem evaluate_allOf:
  "reg (role p) = Some granted \<Longrightarrow> P \<noteq> [] \<Longrightarrow>
   evaluate reg p (AllOf (map Single P)) =
     (if set P \<subseteq> granted then Allow else Deny NotAllRequired (set P - granted))"
proof -
  assume resolved: "reg (role p) = Some granted"
  have "check (role p) granted (AllOf (map Single P)) =
          (if set P \<subseteq> granted then Allow else Deny NotAllRequired (set P - granted))"
    by (simp only: check.simps Let_def check_all_singles missing_singles)
  with resolved show ?thesis
    by (simp add: evaluate_def)
qed

theorem evaluate_allOf_witness:
  "[''TEAM_LEAD'' \<mapsto> {''UPDATE_PROJECT'', ''VIEW_TEAM''}] (role \<lparr>uid = ''u1'', role = ''TEAM_LEAD''\<rparr>)
     = Some {''UPDATE_PROJECT'', ''VIEW_TEAM''} \<and>
   [''UPDATE_PROJECT'', ''MANAGE_TEAM''] \<noteq> [] \<and>
   evaluate [''TEAM_LEAD'' \<mapsto> {''UPDATE_PROJECT'', ''VIEW_TEAM''}] \<lparr>uid = ''u1'', role = ''TEAM_LEAD''\<rparr>
     (AllOf (map Single [''UPDATE_PROJECT'', ''MANAGE_TEAM'']))
     = Deny NotAllRequired {''MANAGE_TEAM''}"
  using evaluate_allOf
    [of "[''TEAM_LEAD'' \<mapsto> {''UPDATE_PROJECT'', ''VIEW_TEAM''}]"
        "\<lparr>uid = ''u1'', role = ''TEAM_LEAD''\<rparr>" "{''UPDATE_PROJECT'', ''VIEW_TEAM''}"
        "[''UPDATE_PROJECT'', ''MANAGE_TEAM'']"]
  by auto

text \<open>
  C4: for a principal whose role resolves to the permissions \<open>granted\<close>, \<open>Single(p)\<close> is
  allowed if and only if \<open>p \<in> granted\<close>, and a denial names \<open>p\<close> as the missing
  permission.
\<close>

theorem evaluate_single:
  "reg (role p) = Some granted \<Longrightarrow>
   evaluate reg p (Single perm) =
     (if perm \<in> granted then Allow else Deny (MissingPermission perm) {perm})"
  by (simp add: evaluate_def)

theorem evaluate_single_witness:
  "[''DEVELOPER'' \<mapsto> {''VIEW_PROJECT'', ''VIEW_TASK'', ''UPDATE_TASK'', ''VIEW_TEAM''}]
     (role \<lparr>uid = ''u1'', role = ''DEVELOPER''\<rparr>)
     = Some {''VIEW_PROJECT'', ''VIEW_TASK'', ''UPDATE_TASK'', ''VIEW_TEAM''} \<and>
   evaluate [''DEVELOPER'' \<mapsto> {''VIEW_PROJECT'', ''VIEW_TASK'', ''UPDATE_TASK'', ''VIEW_TEAM''}]
     \<lparr>uid = ''u1'', role = ''DEVELOPER''\<rparr> (Single ''UPDATE_PROJECT'')
     = Deny (MissingPermission ''UPDATE_PROJECT'') {''UPDATE_PROJECT''} \<and>
   evaluate [''DEVELOPER'' \<mapsto> {''VIEW_PROJECT'', ''VIEW_TASK'', ''UPDATE_TASK'', ''VIEW_TEAM''}]
     \<lparr>uid = ''u1'', role = ''DEVELOPER''\<rparr> (Single ''VIEW_TASK'') = Allow"
  using evaluate_single
    [of "[''DEVELOPER'' \<mapsto> {''VIEW_PROJECT'', ''VIEW_TASK'', ''UPDATE_TASK'', ''VIEW_TEAM''}]"
        "\<lparr>uid = ''u1'', role = ''DEVELOPER''\<rparr>"
        "{''VIEW_PROJECT'', ''VIEW_TASK'', ''UPDATE_TASK'', ''VIEW_TEAM''}" "''UPDATE_PROJECT''"]
    evaluate_single
    [of "[''DEVELOPER'' \<mapsto> {''VIEW_PROJECT'', ''VIEW_TASK'', ''UPDATE_TASK'', ''VIEW_TEAM''}]"
        "\<lparr>uid = ''u1'', role = ''DEVELOPER''\<rparr>"
        "{''VIEW_PROJECT'', ''VIEW_TASK'', ''UPDATE_TASK'', ''VIEW_TEAM''}" "''VIEW_TASK''"]
  by simp

text \<open>
  C5, amended: for a principal whose role resolves in the registry, \<open>RoleExact(r)\<close> is
  allowed if and only if the principal's role identifier is \<open>r\<close>, whatever the role
  grants; and a \<open>DEVELOPER\<close> granted exactly \<open>CREATE_PROJECT\<close> is denied
  \<open>AnyOf({RoleExact(PROJECT_MANAGER), AllOf({CREATE_PROJECT, MANAGE_TEAM})})\<close>.
\<close>

theorem evaluate_roleExact:
  "(reg (role p) = Some granted \<longrightarrow>
      evaluate reg p (RoleExact r) =
        (if role p = r then Allow else Deny (RequiresRole r (role p)) {})) \<and>
   (reg ''DEVELOPER'' = Some {''CREATE_PROJECT''} \<and> role p = ''DEVELOPER'' \<longrightarrow>
      evaluate reg p
        (AnyOf [RoleExact ''PROJECT_MANAGER'', AllOf [Single ''CREATE_PROJECT'', Single ''MANAGE_TEAM'']])
        = Deny NoneOfRequired {''CREATE_PROJECT'', ''MANAGE_TEAM''})"
  by (auto simp: evaluate_def)

theorem evaluate_roleExact_witness:
  "evaluate [''DEVELOPER'' \<mapsto> {''CREATE_PROJECT''}] \<lparr>uid = ''u1'', role = ''DEVELOPER''\<rparr>
     (RoleExact ''DEVELOPER'') = Allow \<and>
   evaluate [''DEVELOPER'' \<mapsto> {''CREATE_PROJECT''}] \<lparr>uid = ''u1'', role = ''DEVELOPER''\<rparr>
     (RoleExact ''PROJECT_MANAGER'') = Deny (RequiresRole ''PROJECT_MANAGER'' ''DEVELOPER'') {} \<and>
   evaluate [''DEVELOPER'' \<mapsto> {''CREATE_PROJECT''}] \<lparr>uid = ''u1'', role = ''DEVELOPER''\<rparr>
     (AnyOf [RoleExact ''PROJECT_MANAGER'', AllOf [Single ''CREATE_PROJECT'', Single ''MANAGE_TEAM'']])
     = Deny NoneOfRequired {''CREATE_PROJECT'', ''MANAGE_TEAM''}"
  using evaluate_roleExact
    [of "[''DEVELOPER'' \<mapsto> {''CREATE_PROJECT''}]" "\<lparr>uid = ''u1'', role = ''DEVELOPER''\<rparr>"
        "{''CREATE_PROJECT''}" "''DEVELOPER''"]
    evaluate_roleExact
    [of "[''DEVELOPER'' \<mapsto> {''CREATE_PROJECT''}]" "\<lparr>uid = ''u1'', role = ''DEVELOPER''\<rparr>"
        "{''CREATE_PROJECT''}" "''PROJECT_MANAGER''"]
  by simp

text \<open>
  C5 as stated is about every principal. Step 1 of the algorithm denies a principal
  whose role does not resolve before the requirement is looked at, also when the
  requirement is \<open>RoleExact\<close> of that very role identifier.
\<close>

theorem unresolved_roleExact_denied:
  "role \<lparr>uid = ''u1'', role = ''GHOST''\<rparr> = ''GHOST'' \<and>
   evaluate [''DEVELOPER'' \<mapsto> {''CREATE_PROJECT''}] \<lparr>uid = ''u1'', role = ''GHOST''\<rparr>
     (RoleExact ''GHOST'') = Deny UnknownRole {}"
  by (simp add: evaluate_def)

text \<open>
  What the specification's evaluator returns for a role that does not resolve, on the
  paths that have no code in the sources.
\<close>

lemma evaluate_unresolved:
  "reg (role p) = None \<Longrightarrow> evaluate reg p req = Deny UnknownRole (permsOf req)"
  by (simp add: evaluate_def)

section \<open>Empty requirements\<close>

text \<open>
  C7, amended: an empty ALL requirement fails with \<open>ConfigError\<close> when it is built, so none
  is ever evaluated for a principal, and the one ALL requirement the code builds is the
  non-empty \<open>['UPDATE_PROJECT', 'MANAGE_TEAM']\<close>; an empty ANY requirement,
  \<open>hasAnyPermission([])\<close>, is built without an error, and its middleware answers every
  request 403 \<open>Insufficient permissions\<close>, whatever \<open>userRole\<close> is: it denies, and never
  allows.
\<close>

theorem empty_requirement_construction:
  "hasAnyPermission (JArr []) userRole req
     = Respond 403 (JObj [(''message'', JStr ''Insufficient permissions'')]) \<and>
   allOfGuard reg [] = Inl ConfigError \<and>
   (allOfGuard reg P = Inr g \<longrightarrow>
      P \<noteq> [] \<and> g = (\<lambda>p. evaluate reg p (AllOf (map Single P)))) \<and>
   (P \<noteq> [] \<longrightarrow> allOfGuard reg P = Inr (\<lambda>p. evaluate reg p (AllOf (map Single P)))) \<and>
   (selectedGuard rq = Inr (HasAllPermissions a) \<longrightarrow>
      a = JArr [JStr ''UPDATE_PROJECT'', JStr ''MANAGE_TEAM''])"
proof -
  have any_empty: "hasAnyPermission (JArr []) userRole req
      = Respond 403 (JObj [(''message'', JStr ''Insufficient permissions'')])"
    by (simp add: hasAnyPermission_def insufficient_def)
  have all_empty: "allOfGuard reg [] = Inl ConfigError"
    by (simp add: allOfGuard_def mkAllOf_def)
  have all_built: "allOfGuard reg P = Inr g \<longrightarrow>
      P \<noteq> [] \<and> g = (\<lambda>p. evaluate reg p (AllOf (map Single P)))"
    by (auto simp: allOfGuard_def mkAllOf_def split: if_splits)
  have all_nonempty: "P \<noteq> [] \<longrightarrow>
      allOfGuard reg P = Inr (\<lambda>p. evaluate reg p (AllOf (map Single P)))"
    by (simp add: allOfGuard_def mkAllOf_def)
  have only_call: "selectedGuard rq = Inr (HasAllPermissions a) \<longrightarrow>
      a = JArr [JStr ''UPDATE_PROJECT'', JStr ''MANAGE_TEAM'']"
    by (auto simp: selectedGuard_def updateGuard_def split: sum.splits if_splits)
  from any_empty all_empty all_built all_nonempty only_call show ?thesis
    by blast
qed

theorem empty_requirement_construction_witness:
  "hasAnyPermission (JArr []) None \<lparr>body = JObj [(''title'', JStr ''t'')], user = Some mockUser\<rparr>
     = Respond 403 (JObj [(''message'', JStr ''Insufficient permissions'')]) \<and>
   allOfGuard [''ADMIN'' \<mapsto> {''UPDATE_PROJECT'', ''MANAGE_TEAM''}] [] = Inl ConfigError \<and>
   [''UPDATE_PROJECT'', ''MANAGE_TEAM''] \<noteq> [] \<and>
   allOfGuard [''ADMIN'' \<mapsto> {''UPDATE_PROJECT'', ''MANAGE_TEAM''}] [''UPDATE_PROJECT'', ''MANAGE_TEAM'']
     = Inr (\<lambda>p. evaluate [''ADMIN'' \<mapsto> {''UPDATE_PROJECT'', ''MANAGE_TEAM''}] p
                (AllOf (map Single [''UPDATE_PROJECT'', ''MANAGE_TEAM'']))) \<and>
   selectedGuard \<lparr>body = JObj [(''teamMembers'', JArr [JStr ''u1''])], user = Some mockUser\<rparr>
     = Inr (HasAllPermissions (JArr [JStr ''UPDATE_PROJECT'', JStr ''MANAGE_TEAM'']))"
  using empty_requirement_construction
    [of None "\<lparr>body = JObj [(''title'', JStr ''t'')], user = Some mockUser\<rparr>"
        "[''ADMIN'' \<mapsto> {''UPDATE_PROJECT'', ''MANAGE_TEAM''}]"
        "[''UPDATE_PROJECT'', ''MANAGE_TEAM'']"
        "\<lambda>p. evaluate [''ADMIN'' \<mapsto> {''UPDATE_PROJECT'', ''MANAGE_TEAM''}] p
               (AllOf (map Single [''UPDATE_PROJECT'', ''MANAGE_TEAM'']))"
        "\<lparr>body = JObj [(''teamMembers'', JArr [JStr ''u1''])], user = Some mockUser\<rparr>"
        "JArr [JStr ''UPDATE_PROJECT'', JStr ''MANAGE_TEAM'']"]
  by (simp add: selectedGuard_def updateGuard_def)

text \<open>
  C7 as stated: an empty ANY requirement fails when it is built and never reaches a
  request. Here it is built, reaches one, and denies a role that holds every permission.
\<close>

theorem hasAnyPermission_empty_counterexample:
  "hasAnyPermission (JArr [])
     (Some \<lparr>name = ''ADMIN'', permissions = [''create:project'', ''manage:team'']\<rparr>)
     \<lparr>body = JObj [], user = Some mockUser\<rparr>
     = Respond 403 (JObj [(''message'', JStr ''Insufficient permissions'')])"
  by (simp add: hasAnyPermission_def insufficient_def)

end
